theory Spec2Isabelle
  imports Main
begin

section \<open>The operating system as the program sees it\<close>

text \<open>
  Attribute names are Python \<open>str\<close>, attribute values and file contents are Python
  \<open>bytes\<close>; both are modelled as \<open>string\<close> (a list of 8-bit characters).
  Every call into the operating system either returns a value or raises an
  \<open>OSError\<close>; the three kinds the program's documentation distinguishes are kept apart.
\<close>

datatype os_error = FileNotFoundError | PermissionError | IOError

datatype exn = OSError os_error | OverflowError

text \<open>
  What the operating system answers for one path at one instant:
  \<open>f_stat\<close> is \<open>os.stat(path).st_size\<close> (so \<open>os.path.getsize\<close>), \<open>f_listxattr\<close> is
  \<open>xattr.listxattr(path)\<close>, \<open>f_getxattr\<close> is \<open>xattr.getxattr(path, name)\<close>, and
  \<open>f_read\<close> is what \<open>open(path, 'rb')\<close> followed by \<open>read\<close> can deliver: the bytes
  that are readable, or the error raised.
\<close>

record file_state =
  f_stat :: "os_error + nat"
  f_listxattr :: "os_error + string list"
  f_getxattr :: "string \<Rightarrow> os_error + string"
  f_read :: "os_error + string"

type_synonym world = "string \<Rightarrow> file_state"

text \<open>\<open>os.path.exists\<close> is true exactly when \<open>os.stat\<close> does not raise.\<close>

definition path_exists :: "world \<Rightarrow> string \<Rightarrow> bool" where
  "path_exists w p = (case f_stat (w p) of Inl e \<Rightarrow> False | Inr sz \<Rightarrow> True)"

section \<open>String primitives\<close>

text \<open>\<open>s.startswith(p)\<close>\<close>

fun startswith :: "string \<Rightarrow> string \<Rightarrow> bool" where
  "startswith s [] = True"
| "startswith [] (c # p) = False"
| "startswith (x # s) (c # p) = (x = c \<and> startswith s p)"

text \<open>\<open>sub in s\<close> for strings: \<open>sub\<close> occurs in \<open>s\<close> as a contiguous run.\<close>

fun str_contains :: "string \<Rightarrow> string \<Rightarrow> bool" where
  "str_contains [] sub = (sub = [])"
| "str_contains (x # s) sub = (startswith (x # s) sub \<or> str_contains s sub)"

text \<open>\<open>s.rstrip('/')\<close>\<close>

definition rstrip_slash :: "string \<Rightarrow> string" where
  "rstrip_slash s = rev (dropWhile (\<lambda>c. c = CHR ''/'') (rev s))"

section \<open>The status record\<close>

record status =
  is_icloud_file :: bool
  is_downloaded :: bool
  is_downloading :: bool
  is_placeholder :: bool
  file_size :: nat
  attributes :: "string list"

definition icloud_indicators :: "string list" where
  "icloud_indicators =
     [''com.apple.file-provider'', ''com.apple.icloud'',
      ''com.apple.CloudDocs'', ''com.apple.clouddocs'']"

definition materialized_attrs :: "string list" where
  "materialized_attrs =
     [''com.apple.file-provider.materialized'', ''com.apple.icloud.materialized'']"

definition downloading_attrs :: "string list" where
  "downloading_attrs =
     [''com.apple.file-provider.downloading'', ''com.apple.icloud.downloading'']"

definition placeholder_indicators :: "string list" where
  "placeholder_indicators =
     [''com.apple.icloud.placeholder'', ''com.apple.file-provider.placeholder'']"

text \<open>
  \<open>os.path.expanduser("~/Library/Mobile Documents/com~apple~CloudDocs")\<close>: the home
  directory without its trailing slashes, followed by the rest of the path.
\<close>

definition icloud_drive_path :: "string \<Rightarrow> string" where
  "icloud_drive_path home =
     rstrip_slash home @ ''/Library/Mobile Documents/com~apple~CloudDocs''"

section \<open>Classification: \<open>get_icloud_file_status\<close>\<close>

text \<open>The attributes whose name contains one of the indicators (lines 295-300).\<close>

definition icloud_attrs_of :: "string list \<Rightarrow> string list" where
  "icloud_attrs_of attrs =
     filter (\<lambda>attr. list_ex (\<lambda>indicator. str_contains attr indicator) icloud_indicators) attrs"

text \<open>
  The loop over the materialized attribute names (lines 331-360). Every branch under
  \<open>if attr in attrs\<close> ends in \<open>break\<close>, so the first name that is present decides;
  \<open>d\<close> is the value \<open>is_downloaded\<close> has before the loop.
\<close>

definition interpret_materialized :: "os_error + string \<Rightarrow> bool" where
  "interpret_materialized r =
     (case r of
        Inl e \<Rightarrow> False
      | Inr attr_value \<Rightarrow>
          if attr_value \<in> set [''1'', ''true'', ''True''] then True
          else if attr_value \<in> set [''0'', ''false'', ''False''] then False
          else attr_value \<noteq> [])"

fun scan_materialized ::
  "(string \<Rightarrow> os_error + string) \<Rightarrow> string list \<Rightarrow> string list \<Rightarrow> bool \<Rightarrow> bool" where
  "scan_materialized getx attrs [] d = d"
| "scan_materialized getx attrs (attr # rest) d =
     (if attr \<in> set attrs then interpret_materialized (getx attr)
      else scan_materialized getx attrs rest d)"

text \<open>Lines 373-389: explicit placeholder attributes, then the default by elimination.\<close>

definition placeholder_step :: "string list \<Rightarrow> status \<Rightarrow> status" where
  "placeholder_step attrs st =
     (let st1 = (if list_ex (\<lambda>indicator. indicator \<in> set attrs) placeholder_indicators
                 then st\<lparr>is_placeholder := True, is_downloaded := False\<rparr> else st)
      in if \<not> is_placeholder st1 \<and> \<not> is_downloaded st1
         then st1\<lparr>is_placeholder := True\<rparr> else st1)"

text \<open>
  Lines 391-423: the content probe. \<open>f.read(n)\<close> returns the first \<open>n\<close> readable
  bytes, fewer when the file ends before.
\<close>

definition content_probe :: "os_error + string \<Rightarrow> status \<Rightarrow> status" where
  "content_probe rd st =
     (if is_icloud_file st \<and> file_size st > 1024 then
        (case rd of
           Inr content \<Rightarrow>
             (let test_bytes = take (min 2048 (file_size st)) content in
              if length test_bytes = 0 \<and> file_size st > 0
              then st\<lparr>is_placeholder := True, is_downloaded := False\<rparr>
              else if length test_bytes \<ge> min 1024 (file_size st)
              then (if \<not> is_downloaded st
                    then st\<lparr>is_downloaded := True, is_placeholder := False\<rparr> else st)
              else if file_size st > 10000 \<and> length test_bytes < 1000
              then st\<lparr>is_placeholder := True, is_downloaded := False\<rparr>
              else st)
         | Inl e \<Rightarrow>
             if file_size st > 10000
             then st\<lparr>is_placeholder := True, is_downloaded := False\<rparr> else st)
      else st)"

text \<open>The status as built up to the early return (lines 271-318).\<close>

definition initial_status :: "string \<Rightarrow> file_state \<Rightarrow> string \<Rightarrow> string list \<Rightarrow> status" where
  "initial_status drive fs file_path attrs =
     \<lparr>is_icloud_file =
        (if icloud_attrs_of attrs \<noteq> [] then True
         else if startswith file_path drive then True
         else False),
      is_downloaded = False, is_downloading = False, is_placeholder = False,
      file_size = (case f_stat fs of Inl e \<Rightarrow> 0 | Inr sz \<Rightarrow> sz),
      attributes = attrs\<rparr>"

text \<open>The status after the attribute-based steps (up to line 389), before the probe.\<close>

definition attribute_status :: "file_state \<Rightarrow> string list \<Rightarrow> status \<Rightarrow> status" where
  "attribute_status fs attrs st =
     placeholder_step attrs
       (st\<lparr>is_downloaded := scan_materialized (f_getxattr fs) attrs materialized_attrs
                               (is_downloaded st),
           is_downloading := (if list_ex (\<lambda>attr. attr \<in> set attrs) downloading_attrs
                              then True else is_downloading st)\<rparr>)"

text \<open>
  The body of the outer \<open>try\<close>. The only call in it that is not guarded by an
  inner handler is \<open>xattr.listxattr\<close>.
\<close>

definition status_body :: "string \<Rightarrow> file_state \<Rightarrow> string \<Rightarrow> exn + status" where
  "status_body home fs file_path =
     (case f_listxattr fs of
        Inl e \<Rightarrow> Inl (OSError e)
      | Inr attrs \<Rightarrow>
          (let st = initial_status (icloud_drive_path home) fs file_path attrs in
           if \<not> is_icloud_file st then Inr st
           else Inr (content_probe (f_read fs) (attribute_status fs attrs st))))"

text \<open>
  \<open>get_icloud_file_status\<close>: the body under \<open>except Exception: return None\<close>.
  \<open>Inl\<close> would be an exception reaching the caller. Writing to standard output is
  taken to succeed throughout: the handler prints the error before it returns
  \<open>None\<close> (line 428), and a \<open>print\<close> that raised there would reach the caller.
\<close>

definition get_icloud_file_status :: "string \<Rightarrow> file_state \<Rightarrow> string \<Rightarrow> exn + status option" where
  "get_icloud_file_status home fs file_path =
     (case status_body home fs file_path of
        Inl e \<Rightarrow> Inr None
      | Inr st \<Rightarrow> Inr (Some st))"

section \<open>Python's \<open>int * 0.1\<close> and the comparison with an int\<close>

text \<open>
  \<open>original_size * 0.1\<close> converts the int to a double (round to nearest, ties to
  even, \<open>OverflowError\<close> when the result would not be finite) and multiplies by the
  double nearest to one tenth, which is \<open>3602879701896397 / 2 ^ 55\<close>; the product
  is rounded the same way. A double has 53 significant bits. Python compares an int
  with a float by their exact values.
\<close>

fun bit_length :: "nat \<Rightarrow> nat" where
  "bit_length n = (if n = 0 then 0 else Suc (bit_length (n div 2)))"

declare bit_length.simps [simp del]

text \<open>The natural number with at most 53 significant bits nearest to \<open>n\<close>.\<close>

definition round53 :: "nat \<Rightarrow> nat" where
  "round53 n =
     (if bit_length n \<le> 53 then n
      else
        (let s = bit_length n - 53; q = n div 2 ^ s; r = n mod 2 ^ s in
         if 2 * r < 2 ^ s \<or> (2 * r = 2 ^ s \<and> even q) then q * 2 ^ s
         else (q + 1) * 2 ^ s))"

definition float_of_int :: "nat \<Rightarrow> exn + nat" where
  "float_of_int n = (let r = round53 n in if r \<ge> 2 ^ 1024 then Inl OverflowError else Inr r)"

text \<open>\<open>current_size < original_size * 0.1\<close>\<close>

definition lt_tenth :: "nat \<Rightarrow> nat \<Rightarrow> exn + bool" where
  "lt_tenth current_size original_size =
     (case float_of_int original_size of
        Inl ex \<Rightarrow> Inl ex
      | Inr r \<Rightarrow> Inr (current_size * 2 ^ 55 < round53 (r * 3602879701896397)))"

section \<open>The collaborators outside the program\<close>

text \<open>
  The four eviction strategies and \<open>prevent_auto_redownload\<close> run external commands
  and write attributes; each catches every exception and returns a flag. What they
  do to the file system is decided outside the program, so they are taken as
  functions on the world. \<open>sleep\<close> is what the provider's daemons do to the world
  while the program waits; \<open>abspath\<close> is \<open>os.path.abspath\<close>, which depends on the
  working directory; \<open>home\<close> is the home directory \<open>expanduser\<close> resolves.
\<close>

record env =
  home :: string
  abspath :: "string \<Rightarrow> string"
  remove_download_brctl :: "string \<Rightarrow> world \<Rightarrow> bool \<times> world"
  remove_download_applescript :: "string \<Rightarrow> world \<Rightarrow> bool \<times> world"
  remove_download_xattr :: "string \<Rightarrow> world \<Rightarrow> bool \<times> world"
  remove_download_evict :: "string \<Rightarrow> world \<Rightarrow> bool \<times> world"
  prevent_auto_redownload :: "string \<Rightarrow> world \<Rightarrow> bool \<times> world"
  sleep :: "nat \<Rightarrow> world \<Rightarrow> world"

section \<open>Verification: \<open>verify_eviction\<close>\<close>

datatype verdict =
    CouldNotGetStatus
  | NowPlaceholder nat
  | NoLongerDownloaded
  | SizeReduced "nat option" nat
  | MaterializedRemoved
  | PoliciesDetected "(string \<times> string) list"
  | StillDownloaded nat
  | ErrorVerifying exn

definition policy_attrs :: "string list" where
  "policy_attrs =
     [''com.apple.file-provider.download-policy'', ''com.apple.clouddocs.download-policy'',
      ''com.apple.file-provider.auto-download'', ''com.apple.clouddocs.auto-download'',
      ''com.apple.file-provider.evicted'']"

text \<open>Lines 561-568: the values of the policy attributes that can be read.\<close>

definition policy_values :: "file_state \<Rightarrow> string list \<Rightarrow> (string \<times> string) list" where
  "policy_values fs attrs =
     concat (map (\<lambda>attr. if attr \<in> set attrs
                          then (case f_getxattr fs attr of Inl e \<Rightarrow> [] | Inr v \<Rightarrow> [(attr, v)])
                          else [])
                 policy_attrs)"

text \<open>\<open>original_size and current_size < original_size * 0.1\<close>\<close>

definition size_reduced :: "nat option \<Rightarrow> nat \<Rightarrow> exn + bool" where
  "size_reduced original_size current_size =
     (case original_size of
        None \<Rightarrow> Inr False
      | Some n \<Rightarrow> if n = 0 then Inr False else lt_tenth current_size n)"

text \<open>\<open>original_size and current_size == original_size\<close>\<close>

definition size_unchanged :: "nat option \<Rightarrow> nat \<Rightarrow> bool" where
  "size_unchanged original_size current_size =
     (case original_size of
        None \<Rightarrow> False
      | Some n \<Rightarrow> n \<noteq> 0 \<and> current_size = n)"

text \<open>The \<open>try\<close> body of \<open>verify_eviction\<close> after the sleep (lines 518-571).\<close>

definition verify_body :: "string \<Rightarrow> file_state \<Rightarrow> string \<Rightarrow> nat option \<Rightarrow> exn + bool \<times> verdict" where
  "verify_body hm fs file_path original_size =
     (case get_icloud_file_status hm fs file_path of
        Inl ex \<Rightarrow> Inl ex
      | Inr None \<Rightarrow> Inr (False, CouldNotGetStatus)
      | Inr (Some st) \<Rightarrow>
          (let current_size = file_size st in
           if is_placeholder st then Inr (True, NowPlaceholder current_size)
           else if \<not> is_downloaded st then Inr (True, NoLongerDownloaded)
           else
             (case size_reduced original_size current_size of
                Inl ex \<Rightarrow> Inl ex
              | Inr reduced \<Rightarrow>
                  if reduced then Inr (True, SizeReduced original_size current_size)
                  else
                    (let attrs = attributes st;
                         has_materialized = list_ex (\<lambda>attr. attr \<in> set attrs) materialized_attrs
                     in
                     if \<not> has_materialized then Inr (True, MaterializedRemoved)
                     else if size_unchanged original_size current_size
                             \<and> list_ex (\<lambda>attr. attr \<in> set attrs) policy_attrs
                     then Inr (True, PoliciesDetected (policy_values fs attrs))
                     else Inr (False, StillDownloaded current_size)))))"

datatype message =
    FileNotFound
  | NotAnICloudFile
  | AlreadyEvicted
  | Evicting nat
  | Trying string
  | ExecutedSuccessfully string
  | Verification verdict
  | SuccessfullyEvicted string
  | Inconclusive string
  | MethodFailed string
  | AttemptingDelayedVerification
  | Waiting nat
  | DelayedSuccessful verdict
  | DelayedInconclusive verdict
  | FinalStatusCheck
  | FinalStatus status
  | AppearsEvicted
  | SettingPoliciesAsFinalMeasure
  | CouldNotConfirm

text \<open>
  What a run does, in order: a strategy called (with the flag it returned),
  \<open>prevent_auto_redownload\<close> called, a sleep, a classification, a line printed.
\<close>

datatype event = Invoke string bool | Policy | Sleep nat | Classify | Print message

text \<open>\<open>verify_eviction\<close>: sleep two seconds, classify again, decide; any exception is a no.\<close>

definition verify_eviction ::
  "env \<Rightarrow> string \<Rightarrow> nat option \<Rightarrow> world \<Rightarrow> (bool \<times> verdict) \<times> world \<times> event list" where
  "verify_eviction e file_path original_size w =
     (let w1 = sleep e 2 w in
      ((case verify_body (home e) (w1 file_path) file_path original_size of
          Inl ex \<Rightarrow> (False, ErrorVerifying ex)
        | Inr r \<Rightarrow> r),
       w1, [Sleep 2, Classify]))"

definition check_eviction_after_delay ::
  "env \<Rightarrow> string \<Rightarrow> nat \<Rightarrow> nat \<Rightarrow> world \<Rightarrow> bool \<times> world \<times> event list" where
  "check_eviction_after_delay e file_path original_size delay_seconds w =
     (let w1 = sleep e delay_seconds w;
          r = verify_eviction e file_path (Some original_size) w1;
          is_evicted = fst (fst r); msg = snd (fst r)
      in if is_evicted
         then (True, fst (snd r),
               [Print (Waiting delay_seconds), Sleep delay_seconds] @ snd (snd r)
                 @ [Print (DelayedSuccessful msg)])
         else (False, fst (snd r),
               [Print (Waiting delay_seconds), Sleep delay_seconds] @ snd (snd r)
                 @ [Print (DelayedInconclusive msg)]))"

section \<open>The single-file orchestrator: \<open>remove_download_smart\<close>\<close>

definition methods :: "env \<Rightarrow> (string \<times> (string \<Rightarrow> world \<Rightarrow> bool \<times> world)) list" where
  "methods e =
     [(''brctl'', remove_download_brctl e),
      (''AppleScript'', remove_download_applescript e),
      (''xattr'', remove_download_xattr e),
      (''evict'', remove_download_evict e)]"

text \<open>
  The loop over the methods (lines 607-634). The flag returned is whether the loop
  left the function with \<open>return True\<close>.
\<close>

fun try_methods ::
  "env \<Rightarrow> string \<Rightarrow> nat \<Rightarrow> (string \<times> (string \<Rightarrow> world \<Rightarrow> bool \<times> world)) list \<Rightarrow> world
     \<Rightarrow> bool \<times> world \<times> event list" where
  "try_methods e abs_path initial_size [] w = (False, w, [])"
| "try_methods e abs_path initial_size ((method_name, method_func) # rest) w =
     (let m = method_func abs_path w in
      if fst m then
        (let p = prevent_auto_redownload e abs_path (snd m);
             v = verify_eviction e abs_path (Some initial_size) (snd p);
             is_evicted = fst (fst v); msg = snd (fst v);
             evs = [Print (Trying method_name), Invoke method_name True,
                    Print (ExecutedSuccessfully method_name), Policy]
                   @ snd (snd v) @ [Print (Verification msg)]
         in if is_evicted then
              (let p2 = prevent_auto_redownload e abs_path (fst (snd v)) in
               (True, snd p2, evs @ [Print (SuccessfullyEvicted method_name), Policy]))
            else
              (let r = try_methods e abs_path initial_size rest (fst (snd v)) in
               (fst r, fst (snd r), evs @ [Print (Inconclusive method_name)] @ snd (snd r))))
      else
        (let r = try_methods e abs_path initial_size rest (snd m) in
         (fst r, fst (snd r),
          [Print (Trying method_name), Invoke method_name False,
           Print (MethodFailed method_name)] @ snd (snd r))))"

text \<open>Lines 636-667: after the loop has run out of methods.\<close>

definition after_methods ::
  "env \<Rightarrow> string \<Rightarrow> nat \<Rightarrow> world \<Rightarrow> (exn + bool) \<times> world \<times> event list" where
  "after_methods e abs_path initial_size w =
     (let c = check_eviction_after_delay e abs_path initial_size 5 w;
          w1 = fst (snd c);
          evs = [Print AttemptingDelayedVerification] @ snd (snd c)
      in if fst c then (Inr True, w1, evs)
         else
           (case get_icloud_file_status (home e) (w1 abs_path) abs_path of
              Inl ex \<Rightarrow> (Inl ex, w1, evs @ [Print FinalStatusCheck, Classify])
            | Inr final_status \<Rightarrow>
                (let evs2 = evs @ [Print FinalStatusCheck, Classify]
                       @ (case final_status of None \<Rightarrow> [] | Some fs \<Rightarrow> [Print (FinalStatus fs)])
                 in if (case final_status of
                          None \<Rightarrow> False
                        | Some fs \<Rightarrow> \<not> is_downloaded fs \<or> is_placeholder fs)
                    then (Inr True, snd (prevent_auto_redownload e abs_path w1),
                          evs2 @ [Print AppearsEvicted, Policy])
                    else (Inr False, snd (prevent_auto_redownload e abs_path w1),
                          evs2 @ [Print SettingPoliciesAsFinalMeasure, Policy,
                                  Print CouldNotConfirm]))))"

definition remove_download_smart ::
  "env \<Rightarrow> string \<Rightarrow> world \<Rightarrow> (exn + bool) \<times> world \<times> event list" where
  "remove_download_smart e file_path w =
     (let abs_path = abspath e file_path in
      if \<not> path_exists w abs_path then (Inr False, w, [Print FileNotFound])
      else
        (case get_icloud_file_status (home e) (w abs_path) abs_path of
           Inl ex \<Rightarrow> (Inl ex, w, [Classify])
         | Inr None \<Rightarrow> (Inr False, w, [Classify, Print NotAnICloudFile])
         | Inr (Some ist) \<Rightarrow>
             if \<not> is_icloud_file ist then (Inr False, w, [Classify, Print NotAnICloudFile])
             else if \<not> is_downloaded ist then (Inr True, w, [Classify, Print AlreadyEvicted])
             else
               (let initial_size = file_size ist;
                    l = try_methods e abs_path initial_size (methods e) w;
                    evs = [Classify, Print (Evicting initial_size)] @ snd (snd l)
                in if fst l then (Inr True, fst (snd l), evs)
                   else
                     (let a = after_methods e abs_path initial_size (fst (snd l)) in
                      (fst a, fst (snd a), evs @ snd (snd a))))))"

section \<open>The sidecar check of \<open>main.py\<close>: \<open>is_icloud_file_evicted\<close>\<close>

text \<open>
  \<open>os.path.basename\<close>, \<open>os.path.dirname\<close> and \<open>os.path.join\<close> of \<open>posixpath\<close>:
  the path is cut after its last slash; \<open>dirname\<close> drops the trailing slashes of
  the head unless the head is nothing but slashes.
\<close>

definition basename :: "string \<Rightarrow> string" where
  "basename p = rev (takeWhile (\<lambda>c. c \<noteq> CHR ''/'') (rev p))"

definition dirname :: "string \<Rightarrow> string" where
  "dirname p =
     (let head = rev (dropWhile (\<lambda>c. c \<noteq> CHR ''/'') (rev p)) in
      if head \<noteq> [] \<and> head \<noteq> replicate (length head) (CHR ''/'') then rstrip_slash head
      else head)"

definition path_join :: "string \<Rightarrow> string \<Rightarrow> string" where
  "path_join a b =
     (if startswith b ''/'' then b
      else if a = [] \<or> last a = CHR ''/'' then a @ b
      else a @ ''/'' @ b)"

definition is_icloud_file_evicted :: "world \<Rightarrow> string \<Rightarrow> exn + bool" where
  "is_icloud_file_evicted w filepath =
     (if \<not> path_exists w filepath then
        (let base_name = basename filepath;
             dir_name = dirname filepath;
             icloud_name = ''.'' @ base_name @ ''.icloud''
         in Inr (path_exists w (path_join dir_name icloud_name)))
      else
        (case f_stat (w filepath) of
           Inl err \<Rightarrow> Inl (OSError err)
         | Inr st_size \<Rightarrow> Inr (st_size = 0)))"

section \<open>Reading a run\<close>

text \<open>The events of a run that act on the system: everything but the printed lines.\<close>

fun is_action :: "event \<Rightarrow> bool" where
  "is_action (Print m) = False"
| "is_action ev = True"

definition actions :: "event list \<Rightarrow> event list" where
  "actions evs = filter is_action evs"

text \<open>
  Every strategy call is followed at once by the policy writes and a verification
  (the settle sleep and the classification), whatever flag the strategy returned.
\<close>

fun policy_and_verify_after_every_call :: "event list \<Rightarrow> bool" where
  "policy_and_verify_after_every_call [] = True"
| "policy_and_verify_after_every_call (Invoke m b # rest) =
     (take 3 rest = [Policy, Sleep 2, Classify] \<and> policy_and_verify_after_every_call rest)"
| "policy_and_verify_after_every_call (ev # rest) = policy_and_verify_after_every_call rest"

text \<open>
  What a run does once the strategies are used up: the five-second wait and the
  verification of the delayed check and, unless that confirms, the final
  classification and the last policy write.
\<close>

definition after_strategies :: "event list \<Rightarrow> bool" where
  "after_strategies acts =
     (take 3 acts = [Sleep 5, Sleep 2, Classify]
      \<and> (drop 3 acts = [] \<or> drop 3 acts = [Classify, Policy]))"

text \<open>
  The actions of the loop over the strategies still to try, given by name and in
  order, up to the end of the run. The next action is the call of the first of
  them. If that call returned true, the policy writes and the verification follow
  at once, and then either the run ends with one more policy write or the loop goes
  on with the remaining strategies. If it returned false, the loop goes on with the
  remaining strategies at once. With no strategy left, \<open>after_strategies\<close> follows.
\<close>

fun strategy_loop :: "string list \<Rightarrow> event list \<Rightarrow> bool" where
  "strategy_loop [] acts = after_strategies acts"
| "strategy_loop (name # names) [] = False"
| "strategy_loop (name # names) (Invoke m b # rest) =
     (m = name \<and>
      (if b then take 3 rest = [Policy, Sleep 2, Classify]
                 \<and> (drop 3 rest = [Policy] \<or> strategy_loop names (drop 3 rest))
       else strategy_loop names rest))"
| "strategy_loop (name # names) (ev # rest) = False"

text \<open>
  The actions of a whole run of \<open>remove_download_smart\<close>: none, or the
  classification alone, or the classification followed by the loop over the four
  strategies in their fixed order.
\<close>

definition orchestrated :: "event list \<Rightarrow> bool" where
  "orchestrated acts =
     (case acts of
        [] \<Rightarrow> True
      | Classify # rest \<Rightarrow>
          rest = [] \<or> strategy_loop [''brctl'', ''AppleScript'', ''xattr'', ''evict''] rest
      | ev # rest \<Rightarrow> False)"

section \<open>Concrete files, worlds and collaborators\<close>

definition home_dir :: string where
  "home_dir = ''/Users/dennisporter''"

definition drive_song :: string where
  "drive_song = ''/Users/dennisporter/Library/Mobile Documents/com~apple~CloudDocs/song.mp3''"

definition documents_song :: string where
  "documents_song = ''/Users/dennisporter/Documents/song.mp3''"

text \<open>A path that does not exist.\<close>

definition missing_file :: file_state where
  "missing_file =
     \<lparr>f_stat = Inl FileNotFoundError, f_listxattr = Inl FileNotFoundError,
      f_getxattr = (\<lambda>name. Inl FileNotFoundError), f_read = Inl FileNotFoundError\<rparr>"

text \<open>50,000 bytes, no extended attributes.\<close>

definition documents_file :: file_state where
  "documents_file =
     \<lparr>f_stat = Inr 50000, f_listxattr = Inr [],
      f_getxattr = (\<lambda>name. Inl IOError), f_read = Inr (replicate 50000 (CHR ''a''))\<rparr>"

text \<open>200,000 bytes, materialized attribute \<open>b'1'\<close>, content fully readable.\<close>

definition downloaded_file :: file_state where
  "downloaded_file =
     \<lparr>f_stat = Inr 200000,
      f_listxattr = Inr [''com.apple.file-provider.materialized''],
      f_getxattr = (\<lambda>name. if name = ''com.apple.file-provider.materialized''
                             then Inr ''1'' else Inl IOError),
      f_read = Inr (replicate 200000 (CHR ''a''))\<rparr>"

text \<open>The same file with materialized attribute \<open>b'0'\<close> and nothing to read.\<close>

definition placeholder_file :: file_state where
  "placeholder_file =
     \<lparr>f_stat = Inr 200000,
      f_listxattr = Inr [''com.apple.file-provider.materialized''],
      f_getxattr = (\<lambda>name. if name = ''com.apple.file-provider.materialized''
                             then Inr ''0'' else Inl IOError),
      f_read = Inr []\<rparr>"

text \<open>The file shrunk to 500 bytes, its materialized attribute still \<open>b'1'\<close>.\<close>

definition shrunk_file :: file_state where
  "shrunk_file =
     \<lparr>f_stat = Inr 500,
      f_listxattr = Inr [''com.apple.file-provider.materialized''],
      f_getxattr = (\<lambda>name. if name = ''com.apple.file-provider.materialized''
                             then Inr ''1'' else Inl IOError),
      f_read = Inr (replicate 500 (CHR ''a''))\<rparr>"

text \<open>An empty file marked materialized that carries a download policy.\<close>

definition empty_policy_file :: file_state where
  "empty_policy_file =
     \<lparr>f_stat = Inr 0,
      f_listxattr = Inr [''com.apple.file-provider.materialized'',
                         ''com.apple.file-provider.download-policy''],
      f_getxattr = (\<lambda>name. if name = ''com.apple.file-provider.materialized'' then Inr ''1''
                             else if name = ''com.apple.file-provider.download-policy''
                             then Inr ''never'' else Inl IOError),
      f_read = Inr []\<rparr>"

text \<open>
  2000 bytes, materialized attribute \<open>b'0'\<close>, content fully readable: the
  attribute is stale.
\<close>

definition stale_file :: file_state where
  "stale_file =
     \<lparr>f_stat = Inr 2000,
      f_listxattr = Inr [''com.apple.file-provider.materialized''],
      f_getxattr = (\<lambda>name. if name = ''com.apple.file-provider.materialized''
                             then Inr ''0'' else Inl IOError),
      f_read = Inr (replicate 2000 (CHR ''a''))\<rparr>"

text \<open>500 bytes, materialized attribute \<open>b'1'\<close>, and a placeholder attribute.\<close>

definition marked_file :: file_state where
  "marked_file =
     \<lparr>f_stat = Inr 500,
      f_listxattr = Inr [''com.apple.file-provider.materialized'',
                         ''com.apple.file-provider.placeholder''],
      f_getxattr = (\<lambda>name. if name = ''com.apple.file-provider.materialized'' then Inr ''1''
                             else if name = ''com.apple.file-provider.placeholder''
                             then Inr ''1'' else Inl IOError),
      f_read = Inr (replicate 500 (CHR ''a''))\<rparr>"

text \<open>
  A directory beside the cloud drive's root whose name begins with the root's name,
  and in it a local file of 2000 bytes with no extended attributes.
\<close>

definition backup_song :: string where
  "backup_song =
     ''/Users/dennisporter/Library/Mobile Documents/com~apple~CloudDocsBackup/song.mp3''"

definition backup_file :: file_state where
  "backup_file =
     \<lparr>f_stat = Inr 2000, f_listxattr = Inr [],
      f_getxattr = (\<lambda>name. Inl IOError), f_read = Inr (replicate 2000 (CHR ''a''))\<rparr>"

definition sidecar_song :: string where
  "sidecar_song =
     ''/Users/dennisporter/Library/Mobile Documents/com~apple~CloudDocs/.song.mp3.icloud''"

definition world_with :: "string \<Rightarrow> file_state \<Rightarrow> world" where
  "world_with p fs = (\<lambda>q. if q = p then fs else missing_file)"

text \<open>
  Collaborators for the examples: \<open>brctl\<close>, \<open>osascript\<close> and \<open>evict\<close> are not
  installed, the attribute method leaves the file shrunk, the policy writes are
  all refused, and nothing happens while the program sleeps.
\<close>

definition example_env :: env where
  "example_env =
     \<lparr>home = home_dir, abspath = (\<lambda>p. p),
      remove_download_brctl = (\<lambda>p w. (False, w)),
      remove_download_applescript = (\<lambda>p w. (False, w)),
      remove_download_xattr = (\<lambda>p w. (True, w(p := shrunk_file))),
      remove_download_evict = (\<lambda>p w. (False, w)),
      prevent_auto_redownload = (\<lambda>p w. (False, w)),
      sleep = (\<lambda>n w. w)\<rparr>"

section \<open>Facts about the primitives and the classifier\<close>

lemma startswith_iff: "startswith s p \<longleftrightarrow> (\<exists>suf. s = p @ suf)"
  by (induction s p rule: startswith.induct) auto

lemma str_contains_iff: "str_contains s sub \<longleftrightarrow> (\<exists>pre suf. s = pre @ sub @ suf)"
proof (induction s)
  case Nil
  then show ?case by auto
next
  case (Cons x s)
  show ?case
  proof
    assume "str_contains (x # s) sub"
    then consider "startswith (x # s) sub" | "str_contains s sub" by auto
    then show "\<exists>pre suf. x # s = pre @ sub @ suf"
    proof cases
      case 1
      then obtain suf where "x # s = sub @ suf" unfolding startswith_iff by blast
      then have "x # s = [] @ sub @ suf" by simp
      then show ?thesis by blast
    next
      case 2
      then obtain pre suf where "s = pre @ sub @ suf" using Cons.IH by blast
      then have "x # s = (x # pre) @ sub @ suf" by simp
      then show ?thesis by blast
    qed
  next
    assume "\<exists>pre suf. x # s = pre @ sub @ suf"
    then obtain pre suf where eq: "x # s = pre @ sub @ suf" by blast
    show "str_contains (x # s) sub"
    proof (cases pre)
      case Nil
      then have "startswith (x # s) sub" using eq unfolding startswith_iff by auto
      then show ?thesis by simp
    next
      case (Cons y pre')
      then have "s = pre' @ sub @ suf" using eq by simp
      then have "str_contains s sub" using Cons.IH by blast
      then show ?thesis by simp
    qed
  qed
qed

lemma icloud_attrs_of_empty_iff:
  "icloud_attrs_of attrs = [] \<longleftrightarrow>
     \<not> (\<exists>a \<in> set attrs. \<exists>i \<in> set icloud_indicators. \<exists>pre suf. a = pre @ i @ suf)"
  unfolding icloud_attrs_of_def
  by (simp add: filter_empty_conv list_ex_iff str_contains_iff)

lemma placeholder_step_fields [simp]:
  "is_icloud_file (placeholder_step attrs st) = is_icloud_file st"
  "file_size (placeholder_step attrs st) = file_size st"
  "attributes (placeholder_step attrs st) = attributes st"
  "is_downloading (placeholder_step attrs st) = is_downloading st"
  by (simp_all add: placeholder_step_def Let_def)

lemma placeholder_step_xor:
  "\<not> is_placeholder st \<Longrightarrow> is_downloaded (placeholder_step attrs st) \<noteq> is_placeholder (placeholder_step attrs st)"
  by (simp add: placeholder_step_def Let_def)

lemma content_probe_fields [simp]:
  "is_icloud_file (content_probe rd st) = is_icloud_file st"
  "file_size (content_probe rd st) = file_size st"
  "attributes (content_probe rd st) = attributes st"
  "is_downloading (content_probe rd st) = is_downloading st"
  by (simp_all add: content_probe_def Let_def split: sum.splits)

lemma content_probe_xor:
  "is_downloaded st \<noteq> is_placeholder st \<Longrightarrow>
     is_downloaded (content_probe rd st) \<noteq> is_placeholder (content_probe rd st)"
  by (auto simp add: content_probe_def Let_def split: sum.splits)

lemma attribute_status_fields [simp]:
  "is_icloud_file (attribute_status fs attrs st) = is_icloud_file st"
  "file_size (attribute_status fs attrs st) = file_size st"
  "attributes (attribute_status fs attrs st) = attributes st"
  by (simp_all add: attribute_status_def)

lemma attribute_status_xor:
  "\<not> is_placeholder st \<Longrightarrow>
     is_downloaded (attribute_status fs attrs st) \<noteq> is_placeholder (attribute_status fs attrs st)"
  unfolding attribute_status_def by (rule placeholder_step_xor) simp

lemma initial_status_fields [simp]:
  "is_downloaded (initial_status drive fs p attrs) = False"
  "is_placeholder (initial_status drive fs p attrs) = False"
  "is_downloading (initial_status drive fs p attrs) = False"
  "attributes (initial_status drive fs p attrs) = attrs"
  "file_size (initial_status drive fs p attrs) = (case f_stat fs of Inl e \<Rightarrow> 0 | Inr sz \<Rightarrow> sz)"
  by (simp_all add: initial_status_def)

lemma initial_status_cloud:
  "is_icloud_file (initial_status drive fs p attrs) \<longleftrightarrow>
     (\<exists>a \<in> set attrs. \<exists>i \<in> set icloud_indicators. \<exists>pre suf. a = pre @ i @ suf)
     \<or> (\<exists>suf. p = drive @ suf)"
  using icloud_attrs_of_empty_iff [of attrs]
  by (auto simp add: initial_status_def startswith_iff)

lemma status_body_Inr:
  "status_body hm fs p = Inr st \<longleftrightarrow>
     (\<exists>attrs. f_listxattr fs = Inr attrs \<and>
        st = (let st0 = initial_status (icloud_drive_path hm) fs p attrs in
              if \<not> is_icloud_file st0 then st0
              else content_probe (f_read fs) (attribute_status fs attrs st0)))"
  by (auto simp add: status_body_def Let_def split: sum.splits)

lemma get_status_Some:
  "get_icloud_file_status hm fs p = Inr (Some st) \<longleftrightarrow> status_body hm fs p = Inr st"
  by (auto simp add: get_icloud_file_status_def split: sum.splits)

lemma get_status_listxattr:
  "f_listxattr fs = Inr attrs \<Longrightarrow>
   get_icloud_file_status hm fs p =
     Inr (Some (let st0 = initial_status (icloud_drive_path hm) fs p attrs in
              if \<not> is_icloud_file st0 then st0
              else content_probe (f_read fs) (attribute_status fs attrs st0)))"
  by (simp add: get_status_Some status_body_Inr)

lemma get_status_not_None:
  "get_icloud_file_status hm fs p = Inr None \<longleftrightarrow> (\<exists>err. f_listxattr fs = Inl err)"
  by (auto simp add: get_icloud_file_status_def status_body_def Let_def split: sum.splits)

lemma get_status_returns: "\<exists>r. get_icloud_file_status hm fs p = Inr r"
  by (simp add: get_icloud_file_status_def split: sum.splits)

lemma scan_materialized_first:
  assumes "ms = pre @ a # post" and "\<forall>b \<in> set pre. b \<notin> set attrs" and "a \<in> set attrs"
  shows "scan_materialized getx attrs ms d = interpret_materialized (getx a)"
  using assms by (induction pre arbitrary: ms) auto

lemma scan_materialized_none:
  "\<forall>b \<in> set ms. b \<notin> set attrs \<Longrightarrow> scan_materialized getx attrs ms d = d"
  by (induction ms) auto

lemma interpret_materialized_cases:
  "interpret_materialized r =
     (case r of Inl err \<Rightarrow> False
      | Inr v \<Rightarrow> v \<in> {''1'', ''true'', ''True''} \<or> (v \<notin> {''0'', ''false'', ''False''} \<and> v \<noteq> []))"
  by (auto simp add: interpret_materialized_def split: sum.splits)

section \<open>The examples evaluated\<close>

lemma drive_eval:
  "icloud_drive_path home_dir = ''/Users/dennisporter/Library/Mobile Documents/com~apple~CloudDocs''"
  by (simp add: icloud_drive_path_def home_dir_def rstrip_slash_def)

lemmas classify_defs =
  get_icloud_file_status_def status_body_def drive_song_def documents_song_def
  backup_song_def drive_eval
  initial_status_def icloud_attrs_of_def icloud_indicators_def attribute_status_def
  materialized_attrs_def interpret_materialized_def downloading_attrs_def placeholder_step_def
  placeholder_indicators_def content_probe_def Let_def


lemma downloaded_file_status:
  "get_icloud_file_status home_dir downloaded_file drive_song =
     Inr (Some \<lparr>is_icloud_file = True, is_downloaded = True, is_downloading = False,
                 is_placeholder = False, file_size = 200000,
                 attributes = [''com.apple.file-provider.materialized'']\<rparr>)"
  by (simp add: classify_defs downloaded_file_def)

lemma placeholder_file_status:
  "get_icloud_file_status home_dir placeholder_file drive_song =
     Inr (Some \<lparr>is_icloud_file = True, is_downloaded = False, is_downloading = False,
                 is_placeholder = True, file_size = 200000,
                 attributes = [''com.apple.file-provider.materialized'']\<rparr>)"
  by (simp add: classify_defs placeholder_file_def)

lemma shrunk_file_status:
  "get_icloud_file_status home_dir shrunk_file drive_song =
     Inr (Some \<lparr>is_icloud_file = True, is_downloaded = True, is_downloading = False,
                 is_placeholder = False, file_size = 500,
                 attributes = [''com.apple.file-provider.materialized'']\<rparr>)"
  by (simp add: classify_defs shrunk_file_def)

lemma empty_policy_file_status:
  "get_icloud_file_status home_dir empty_policy_file drive_song =
     Inr (Some \<lparr>is_icloud_file = True, is_downloaded = True, is_downloading = False,
                 is_placeholder = False, file_size = 0,
                 attributes = [''com.apple.file-provider.materialized'',
                               ''com.apple.file-provider.download-policy'']\<rparr>)"
  by (simp add: classify_defs empty_policy_file_def)

lemma stale_file_status:
  "get_icloud_file_status home_dir stale_file drive_song =
     Inr (Some \<lparr>is_icloud_file = True, is_downloaded = True, is_downloading = False,
                 is_placeholder = False, file_size = 2000,
                 attributes = [''com.apple.file-provider.materialized'']\<rparr>)"
  by (simp add: classify_defs stale_file_def)

lemma marked_file_status:
  "get_icloud_file_status home_dir marked_file drive_song =
     Inr (Some \<lparr>is_icloud_file = True, is_downloaded = False, is_downloading = False,
                 is_placeholder = True, file_size = 500,
                 attributes = [''com.apple.file-provider.materialized'',
                               ''com.apple.file-provider.placeholder'']\<rparr>)"
  by (simp add: classify_defs marked_file_def)

lemma backup_file_status:
  "get_icloud_file_status home_dir backup_file backup_song =
     Inr (Some \<lparr>is_icloud_file = True, is_downloaded = True, is_downloading = False,
                 is_placeholder = False, file_size = 2000, attributes = []\<rparr>)"
  by (simp add: classify_defs backup_file_def)

lemma shrunk_file_status_backup:
  "get_icloud_file_status home_dir shrunk_file backup_song =
     Inr (Some \<lparr>is_icloud_file = True, is_downloaded = True, is_downloading = False,
                 is_placeholder = False, file_size = 500,
                 attributes = [''com.apple.file-provider.materialized'']\<rparr>)"
  by (simp add: classify_defs shrunk_file_def)

lemma example_env_simps [simp]:
  "home example_env = home_dir"
  "abspath example_env p = p"
  "remove_download_brctl example_env p w = (False, w)"
  "remove_download_applescript example_env p w = (False, w)"
  "remove_download_xattr example_env p w = (True, w(p := shrunk_file))"
  "remove_download_evict example_env p w = (False, w)"
  "prevent_auto_redownload example_env p w = (False, w)"
  "sleep example_env n w = w"
  by (simp_all add: example_env_def)

lemma world_with_same [simp]: "world_with p fs p = fs"
  by (simp add: world_with_def)

lemma world_with_update [simp]: "(world_with p a)(p := b) = world_with p b"
  by (auto simp add: world_with_def)

section \<open>Classification\<close>

text \<open>
  A path that carries no attribute in a cloud provider's namespace and whose
  absolute path does not begin, as a string, with the cloud drive's root is
  classified with \<open>is_icloud_file\<close>, \<open>is_downloaded\<close> and \<open>is_placeholder\<close> all false,
  and \<open>remove_download_smart\<close> returns on it with the world as it was, having called
  no eviction strategy and written no policy.
\<close>

lemma non_cloud_file_untouched:
  assumes "f_listxattr (w (abspath e file_path)) = Inr attrs"
    and "\<forall>a \<in> set attrs. \<forall>i \<in> set icloud_indicators. \<not> (\<exists>pre suf. a = pre @ i @ suf)"
    and "\<not> (\<exists>suf. abspath e file_path = icloud_drive_path (home e) @ suf)"
  shows "(\<exists>st. get_icloud_file_status (home e) (w (abspath e file_path)) (abspath e file_path)
               = Inr (Some st)
             \<and> \<not> is_icloud_file st \<and> \<not> is_downloaded st \<and> \<not> is_placeholder st) \<and>
         (\<exists>evs. remove_download_smart e file_path w = (Inr False, w, evs)
             \<and> (\<forall>m b. Invoke m b \<notin> set evs) \<and> Policy \<notin> set evs)"
proof -
  let ?q = "abspath e file_path"
  let ?st0 = "initial_status (icloud_drive_path (home e)) (w ?q) ?q attrs"
  have nc: "\<not> is_icloud_file ?st0"
    using assms(2,3) unfolding initial_status_cloud by blast
  have g: "get_icloud_file_status (home e) (w ?q) ?q = Inr (Some ?st0)"
    using get_status_listxattr [OF assms(1), of "home e" ?q] nc by (simp add: Let_def)
  have first: "\<exists>st. get_icloud_file_status (home e) (w ?q) ?q = Inr (Some st)
             \<and> \<not> is_icloud_file st \<and> \<not> is_downloaded st \<and> \<not> is_placeholder st"
    using g nc by simp
  have second: "\<exists>evs. remove_download_smart e file_path w = (Inr False, w, evs)
             \<and> (\<forall>m b. Invoke m b \<notin> set evs) \<and> Policy \<notin> set evs"
    using g nc by (simp add: remove_download_smart_def Let_def)
  show ?thesis using first second by blast
qed

lemma non_cloud_file_untouched_example:
  "(\<exists>st. get_icloud_file_status home_dir documents_file documents_song = Inr (Some st)
          \<and> \<not> is_icloud_file st \<and> \<not> is_downloaded st \<and> \<not> is_placeholder st) \<and>
   (\<exists>evs. remove_download_smart example_env documents_song
             (world_with documents_song documents_file)
           = (Inr False, world_with documents_song documents_file, evs)
          \<and> (\<forall>m b. Invoke m b \<notin> set evs) \<and> Policy \<notin> set evs)"
proof -
  let ?w = "world_with documents_song documents_file"
  have h1: "f_listxattr (?w (abspath example_env documents_song)) = Inr []"
    by (simp add: documents_file_def)
  have h2: "\<forall>a \<in> set []. \<forall>i \<in> set icloud_indicators. \<not> (\<exists>pre suf. a = pre @ i @ suf)"
    by simp
  have "\<not> startswith documents_song (icloud_drive_path home_dir)"
    by (simp add: drive_eval documents_song_def)
  then have h3: "\<not> (\<exists>suf. abspath example_env documents_song
                          = icloud_drive_path (home example_env) @ suf)"
    by (simp add: startswith_iff)
  show ?thesis
    using non_cloud_file_untouched
            [where w = ?w and e = example_env and file_path = documents_song and attrs = "[]",
             OF h1 h2 h3]
    by simp
qed

text \<open>
  C2. Whenever classification returns a status for a cloud file, exactly one of
  \<open>is_downloaded\<close> and \<open>is_placeholder\<close> holds in it.
\<close>

theorem downloaded_xor_placeholder:
  assumes "get_icloud_file_status hm fs p = Inr (Some st)" and "is_icloud_file st"
  shows "is_downloaded st \<noteq> is_placeholder st"
proof -
  from assms(1) obtain attrs where l: "f_listxattr fs = Inr attrs"
    and st: "st = (let st0 = initial_status (icloud_drive_path hm) fs p attrs in
              if \<not> is_icloud_file st0 then st0
              else content_probe (f_read fs) (attribute_status fs attrs st0))"
    unfolding get_status_Some status_body_Inr by blast
  let ?st0 = "initial_status (icloud_drive_path hm) fs p attrs"
  have c: "is_icloud_file ?st0" using st assms(2) by (simp add: Let_def split: if_splits)
  then have "st = content_probe (f_read fs) (attribute_status fs attrs ?st0)"
    using st by (simp add: Let_def)
  moreover have "is_downloaded (attribute_status fs attrs ?st0) \<noteq> is_placeholder (attribute_status fs attrs ?st0)"
    by (rule attribute_status_xor) simp
  ultimately show ?thesis using content_probe_xor by blast
qed

theorem downloaded_xor_placeholder_witness:
  "get_icloud_file_status home_dir downloaded_file drive_song =
     Inr (Some \<lparr>is_icloud_file = True, is_downloaded = True, is_downloading = False,
                 is_placeholder = False, file_size = 200000,
                 attributes = [''com.apple.file-provider.materialized'']\<rparr>)
   \<and> is_downloaded \<lparr>is_icloud_file = True, is_downloaded = True, is_downloading = False,
                 is_placeholder = False, file_size = 200000,
                 attributes = [''com.apple.file-provider.materialized'']\<rparr>
     \<noteq> is_placeholder \<lparr>is_icloud_file = True, is_downloaded = True, is_downloading = False,
                 is_placeholder = False, file_size = 200000,
                 attributes = [''com.apple.file-provider.materialized'']\<rparr>"
proof -
  note h = downloaded_file_status
  have c: "is_icloud_file \<lparr>is_icloud_file = True, is_downloaded = True, is_downloading = False,
                 is_placeholder = False, file_size = 200000,
                 attributes = [''com.apple.file-provider.materialized'']\<rparr>"
    by simp
  show ?thesis using h downloaded_xor_placeholder [OF h c] by blast
qed



lemma content_probe_downloaded:
  assumes "is_icloud_file B"
  shows "is_downloaded (content_probe rd B) =
           (if file_size B \<le> 1024 then is_downloaded B
            else
              (case rd of
                 Inl err \<Rightarrow> if file_size B > 10000 then False else is_downloaded B
               | Inr content \<Rightarrow>
                   (if length (take (min 2048 (file_size B)) content) = 0 then False
                    else if length (take (min 2048 (file_size B)) content) \<ge> 1024 then True
                    else if file_size B > 10000
                            \<and> length (take (min 2048 (file_size B)) content) < 1000 then False
                    else is_downloaded B)))"
  using assms by (auto simp add: content_probe_def Let_def split: sum.splits)

text \<open>
  C4, as the code has it. For a cloud file, the attribute steps decide
  \<open>is_downloaded\<close> from the first materialized attribute name that the file has, and
  from that attribute's value alone: one of \<open>1\<close>, \<open>true\<close>, \<open>True\<close> gives
  downloaded; one of \<open>0\<close>, \<open>false\<close>, \<open>False\<close> gives not downloaded; any other
  non-empty value gives downloaded; the empty value or a value that cannot be read
  gives not downloaded; and an explicit placeholder attribute makes it not downloaded
  whatever the value. The returned \<open>is_downloaded\<close> is that decision for a file of at
  most 1024 bytes and whenever the content probe does not override; for a larger
  file the probe's override wins: no byte read gives not downloaded, at least 1024
  bytes read give downloaded, fewer than 1000 bytes read of a file larger than 10000
  give not downloaded, and a failed read of a file larger than 10000 gives not
  downloaded.
\<close>

theorem materialized_value_decides:
  assumes "get_icloud_file_status hm fs p = Inr (Some st)" and "is_icloud_file st"
    and "materialized_attrs = pre @ a # post"
    and "\<forall>b \<in> set pre. b \<notin> set (attributes st)"
    and "a \<in> set (attributes st)"
  shows "is_downloaded st =
           (let by_attributes =
                  ((case f_getxattr fs a of
                      Inl err \<Rightarrow> False
                    | Inr v \<Rightarrow> v \<in> {''1'', ''true'', ''True''}
                                \<or> (v \<notin> {''0'', ''false'', ''False''} \<and> v \<noteq> []))
                   \<and> (\<forall>i \<in> set placeholder_indicators. i \<notin> set (attributes st)))
            in if file_size st \<le> 1024 then by_attributes
               else
                 (case f_read fs of
                    Inl err \<Rightarrow> if file_size st > 10000 then False else by_attributes
                  | Inr content \<Rightarrow>
                      (let n = length (take (min 2048 (file_size st)) content) in
                       if n = 0 then False
                       else if n \<ge> 1024 then True
                       else if file_size st > 10000 \<and> n < 1000 then False
                       else by_attributes)))"
proof -
  from assms(1) obtain attrs where l: "f_listxattr fs = Inr attrs"
    and st: "st = (let st0 = initial_status (icloud_drive_path hm) fs p attrs in
              if \<not> is_icloud_file st0 then st0
              else content_probe (f_read fs) (attribute_status fs attrs st0))"
    unfolding get_status_Some status_body_Inr by blast
  let ?st0 = "initial_status (icloud_drive_path hm) fs p attrs"
  let ?B = "attribute_status fs attrs ?st0"
  let ?v = "case f_getxattr fs a of
              Inl err \<Rightarrow> False
            | Inr v \<Rightarrow> v \<in> {''1'', ''true'', ''True''}
                        \<or> (v \<notin> {''0'', ''false'', ''False''} \<and> v \<noteq> [])"
  have c: "is_icloud_file ?st0" using st assms(2) by (simp add: Let_def split: if_splits)
  then have st': "st = content_probe (f_read fs) ?B"
    using st by (simp add: Let_def)
  have a: "attributes st = attrs" and sz: "file_size ?B = file_size st"
    and cB: "is_icloud_file ?B"
    using st' c by simp_all
  have scan: "scan_materialized (f_getxattr fs) attrs materialized_attrs False = ?v"
    using scan_materialized_first [OF assms(3), of attrs "f_getxattr fs" False] assms(4,5) a
    by (simp add: interpret_materialized_cases)
  have B: "is_downloaded ?B = (?v \<and> (\<forall>i \<in> set placeholder_indicators. i \<notin> set attrs))"
    unfolding scan [symmetric]
    by (auto simp add: attribute_status_def placeholder_step_def Let_def list_ex_iff)
  have "is_downloaded st = is_downloaded (content_probe (f_read fs) ?B)"
    by (subst st') (rule refl)
  also have "\<dots> =
           (if file_size ?B \<le> 1024 then is_downloaded ?B
            else
              (case f_read fs of
                 Inl err \<Rightarrow> if file_size ?B > 10000 then False else is_downloaded ?B
               | Inr content \<Rightarrow>
                   (if length (take (min 2048 (file_size ?B)) content) = 0 then False
                    else if length (take (min 2048 (file_size ?B)) content) \<ge> 1024 then True
                    else if file_size ?B > 10000
                            \<and> length (take (min 2048 (file_size ?B)) content) < 1000 then False
                    else is_downloaded ?B)))"
    by (rule content_probe_downloaded [OF cB])
  finally show ?thesis
    unfolding Let_def a sz B .
qed

theorem materialized_value_decides_witness:
  "get_icloud_file_status home_dir shrunk_file drive_song =
     Inr (Some \<lparr>is_icloud_file = True, is_downloaded = True, is_downloading = False,
                 is_placeholder = False, file_size = 500,
                 attributes = [''com.apple.file-provider.materialized'']\<rparr>)
   \<and> f_getxattr shrunk_file ''com.apple.file-provider.materialized'' = Inr ''1''
   \<and> ''com.apple.file-provider.materialized'' \<in> set materialized_attrs"
proof -
  note h = shrunk_file_status
  have c: "is_icloud_file \<lparr>is_icloud_file = True, is_downloaded = True, is_downloading = False,
                 is_placeholder = False, file_size = 500,
                 attributes = [''com.apple.file-provider.materialized'']\<rparr>"
    by simp
  have m: "materialized_attrs =
             [] @ ''com.apple.file-provider.materialized'' # [''com.apple.icloud.materialized'']"
    by (simp add: materialized_attrs_def)
  show ?thesis using h materialized_value_decides [OF h c m]
    by (simp add: shrunk_file_def materialized_attrs_def)
qed

text \<open>
  C4, as the claim states it, fails in two ways. A cloud file of 2000 bytes whose
  first materialized attribute has the value \<open>0\<close> and whose content can be read is
  returned as downloaded, by the content probe. A cloud file whose first materialized
  attribute has the value \<open>1\<close> and which carries a placeholder attribute is returned
  as not downloaded.
\<close>

theorem stale_attribute_counterexample:
  "f_getxattr stale_file ''com.apple.file-provider.materialized'' = Inr ''0''
   \<and> get_icloud_file_status home_dir stale_file drive_song =
       Inr (Some \<lparr>is_icloud_file = True, is_downloaded = True, is_downloading = False,
                   is_placeholder = False, file_size = 2000,
                   attributes = [''com.apple.file-provider.materialized'']\<rparr>)
   \<and> f_getxattr marked_file ''com.apple.file-provider.materialized'' = Inr ''1''
   \<and> get_icloud_file_status home_dir marked_file drive_song =
       Inr (Some \<lparr>is_icloud_file = True, is_downloaded = False, is_downloading = False,
                   is_placeholder = True, file_size = 500,
                   attributes = [''com.apple.file-provider.materialized'',
                                 ''com.apple.file-provider.placeholder'']\<rparr>)"
  by (simp add: stale_file_status marked_file_status) (simp add: stale_file_def marked_file_def)

text \<open>
  C5. The content probe changes nothing but \<open>is_downloaded\<close> and \<open>is_placeholder\<close>,
  and nothing at all for a cloud file of at most 1024 bytes. For a larger one it reads
  up to \<open>min(2048, size)\<close> bytes: no byte read makes the file a placeholder; at least
  \<open>min(1024, size)\<close> bytes read make it downloaded; fewer than 1000 bytes read of a
  file larger than 10000 make it a placeholder; so does a failed read of a file
  larger than 10000; in every other case the status of the attribute steps stands.
\<close>

theorem content_probe_override:
  assumes "f_listxattr fs = Inr attrs"
    and "before = attribute_status fs attrs (initial_status (icloud_drive_path hm) fs p attrs)"
    and "is_icloud_file before"
  shows "\<exists>st. get_icloud_file_status hm fs p = Inr (Some st) \<and>
           st = before\<lparr>is_downloaded := is_downloaded st, is_placeholder := is_placeholder st\<rparr> \<and>
           (file_size before \<le> 1024 \<longrightarrow> st = before) \<and>
           (file_size before > 1024 \<longrightarrow>
              (case f_read fs of
                 Inr content \<Rightarrow>
                   (let n = length (take (min 2048 (file_size before)) content) in
                    (n = 0 \<longrightarrow> is_placeholder st \<and> \<not> is_downloaded st) \<and>
                    (n \<ge> min 1024 (file_size before) \<longrightarrow> is_downloaded st \<and> \<not> is_placeholder st) \<and>
                    (n < 1000 \<and> file_size before > 10000 \<longrightarrow> is_placeholder st \<and> \<not> is_downloaded st) \<and>
                    (n \<noteq> 0 \<and> n < min 1024 (file_size before)
                       \<and> \<not> (n < 1000 \<and> file_size before > 10000) \<longrightarrow> st = before))
               | Inl err \<Rightarrow>
                   (file_size before > 10000 \<longrightarrow> is_placeholder st \<and> \<not> is_downloaded st) \<and>
                   (file_size before \<le> 10000 \<longrightarrow> st = before)))"
proof -
  let ?st0 = "initial_status (icloud_drive_path hm) fs p attrs"
  have c: "is_icloud_file ?st0" using assms(2,3) by simp
  have g: "get_icloud_file_status hm fs p = Inr (Some (content_probe (f_read fs) before))"
    using get_status_listxattr [OF assms(1), of hm p] c assms(2) by (simp add: Let_def)
  have x: "is_downloaded before \<noteq> is_placeholder before"
    unfolding assms(2) by (rule attribute_status_xor) simp
  let ?st = "content_probe (f_read fs) before"
  have a: "?st = before\<lparr>is_downloaded := is_downloaded ?st, is_placeholder := is_placeholder ?st\<rparr>"
    by (simp add: content_probe_def Let_def split: sum.splits)
  have b: "file_size before \<le> 1024 \<longrightarrow> ?st = before"
    by (simp add: content_probe_def)
  have d: "file_size before > 1024 \<longrightarrow>
              (case f_read fs of
                 Inr content \<Rightarrow>
                   (let n = length (take (min 2048 (file_size before)) content) in
                    (n = 0 \<longrightarrow> is_placeholder ?st \<and> \<not> is_downloaded ?st) \<and>
                    (n \<ge> min 1024 (file_size before) \<longrightarrow> is_downloaded ?st \<and> \<not> is_placeholder ?st) \<and>
                    (n < 1000 \<and> file_size before > 10000 \<longrightarrow> is_placeholder ?st \<and> \<not> is_downloaded ?st) \<and>
                    (n \<noteq> 0 \<and> n < min 1024 (file_size before)
                       \<and> \<not> (n < 1000 \<and> file_size before > 10000) \<longrightarrow> ?st = before))
               | Inl err \<Rightarrow>
                   (file_size before > 10000 \<longrightarrow> is_placeholder ?st \<and> \<not> is_downloaded ?st) \<and>
                   (file_size before \<le> 10000 \<longrightarrow> ?st = before))"
    using x assms(3) by (auto simp add: content_probe_def Let_def split: sum.splits)
  show ?thesis using g a b d by blast
qed

theorem content_probe_override_witness:
  "\<exists>st. get_icloud_file_status home_dir placeholder_file drive_song = Inr (Some st)
        \<and> is_placeholder st \<and> \<not> is_downloaded st"
proof -
  let ?attrs = "[''com.apple.file-provider.materialized'']"
  let ?before = "attribute_status placeholder_file ?attrs
                   (initial_status (icloud_drive_path home_dir) placeholder_file drive_song ?attrs)"
  have h1: "f_listxattr placeholder_file = Inr ?attrs"
    by (simp add: placeholder_file_def)
  have h3: "is_icloud_file ?before"
    by (simp add: initial_status_def drive_eval drive_song_def)
  have sz: "file_size ?before = 200000" and rd: "f_read placeholder_file = Inr []"
    by (simp_all add: placeholder_file_def)
  show ?thesis using content_probe_override [OF h1 refl h3] sz rd
    by auto
qed

text \<open>
  C7, as the code has it. When the attribute names cannot be listed, which is what
  happens for a path that does not exist as well as on a permission or I/O error, the
  body of \<open>get_icloud_file_status\<close> raises that error, the function's own handler
  catches it, and the caller is given \<open>None\<close>: the error is not propagated, and no
  status, defaulted or other, is returned.
\<close>

theorem listxattr_failure_gives_no_status:
  assumes "f_listxattr fs = Inl err"
  shows "status_body hm fs p = Inl (OSError err)
         \<and> get_icloud_file_status hm fs p = Inr None"
  using assms by (simp add: get_icloud_file_status_def status_body_def)

theorem listxattr_failure_gives_no_status_witness:
  "f_listxattr missing_file = Inl FileNotFoundError
   \<and> status_body home_dir missing_file documents_song = Inl (OSError FileNotFoundError)
   \<and> get_icloud_file_status home_dir missing_file documents_song = Inr None"
proof -
  have h: "f_listxattr missing_file = Inl FileNotFoundError"
    by (simp add: missing_file_def)
  show ?thesis
    using h listxattr_failure_gives_no_status [OF h, of home_dir documents_song] by simp
qed

text \<open>
  C7, as the claim states it, fails on a path that does not exist: the listing raises
  \<open>FileNotFoundError\<close>, and classification returns \<open>None\<close> instead of failing with it.
\<close>

theorem missing_path_counterexample:
  "f_stat missing_file = Inl FileNotFoundError \<and>
   f_listxattr missing_file = Inl FileNotFoundError \<and>
   get_icloud_file_status home_dir missing_file documents_song = Inr None \<and>
   get_icloud_file_status home_dir missing_file documents_song
     \<noteq> Inl (OSError FileNotFoundError)"
  by (simp add: get_icloud_file_status_def status_body_def missing_file_def)

section \<open>The orchestrator\<close>

text \<open>
  C9. On an existing cloud file that classification reports as not downloaded,
  \<open>remove_download_smart\<close> returns true after the classification and the line
  "already evicted": it calls no strategy, does not verify, does not sleep, and
  leaves the world, so the file's size and status, as it was.
\<close>

theorem already_evicted_is_immediate:
  assumes "path_exists w (abspath e file_path)"
    and "get_icloud_file_status (home e) (w (abspath e file_path)) (abspath e file_path)
           = Inr (Some st)"
    and "is_icloud_file st" and "\<not> is_downloaded st"
  shows "remove_download_smart e file_path w = (Inr True, w, [Classify, Print AlreadyEvicted])"
  using assms by (simp add: remove_download_smart_def Let_def)

theorem already_evicted_is_immediate_witness:
  "remove_download_smart example_env drive_song (world_with drive_song placeholder_file)
     = (Inr True, world_with drive_song placeholder_file, [Classify, Print AlreadyEvicted])"
proof -
  let ?w = "world_with drive_song placeholder_file"
  let ?st = "\<lparr>is_icloud_file = True, is_downloaded = False, is_downloading = False,
              is_placeholder = True, file_size = 200000,
              attributes = [''com.apple.file-provider.materialized'']\<rparr>"
  have h1: "path_exists ?w (abspath example_env drive_song)"
    by (simp add: path_exists_def placeholder_file_def)
  have h2: "get_icloud_file_status (home example_env) (?w (abspath example_env drive_song))
              (abspath example_env drive_song) = Inr (Some ?st)"
    using placeholder_file_status by simp
  have h3: "is_icloud_file ?st" and h4: "\<not> is_downloaded ?st" by simp_all
  show ?thesis
    by (rule already_evicted_is_immediate
              [where w = ?w and e = example_env and file_path = drive_song and st = ?st,
               OF h1 h2 h3 h4])
qed

section \<open>The double-precision product below \<open>2 ^ 53\<close>\<close>

text \<open>
  For an original size that a double holds exactly, comparing the current size with
  the rounded product \<open>original_size * 0.1\<close> is the same as comparing ten times
  the current size with the original size.
\<close>

lemma bit_length_le_iff: "bit_length n \<le> k \<longleftrightarrow> n < 2 ^ k"
proof (induction n arbitrary: k rule: bit_length.induct)
  case (1 n)
  show ?case
  proof (cases "n = 0")
    case True
    then show ?thesis by (simp add: bit_length.simps)
  next
    case False
    then have bl: "bit_length n = Suc (bit_length (n div 2))"
      by (subst bit_length.simps) simp
    show ?thesis
    proof (cases k)
      case 0
      then show ?thesis using False bl by simp
    next
      case (Suc k')
      have "bit_length (n div 2) \<le> k' \<longleftrightarrow> n div 2 < 2 ^ k'"
        using "1.IH" [OF False] .
      also have "\<dots> \<longleftrightarrow> n < 2 ^ Suc k'" by auto
      finally show ?thesis using bl Suc by simp
    qed
  qed
qed

lemma if_le_nat: "a \<le> G \<Longrightarrow> b \<le> G \<Longrightarrow> (if c then a else b) \<le> (G::nat)"
  by simp

lemma if_gt_nat: "G < a \<Longrightarrow> G < b \<Longrightarrow> (G::nat) < (if c then a else b)"
  by simp

text \<open>Rounding to the nearest multiple of \<open>M\<close>, as \<open>round53\<close> does with \<open>M = 2 ^ s\<close>.\<close>

lemma round_multiple_le:
  fixes M :: nat
  assumes "0 < M" and "N \<le> g * M"
  shows "(if 2 * (N mod M) < M \<or> (2 * (N mod M) = M \<and> even (N div M))
          then N div M * M else (N div M + 1) * M) \<le> g * M"
proof -
  have q: "N div M \<le> g" using assms by (metis div_le_mono nonzero_mult_div_cancel_right less_numeral_extra(3))
  show ?thesis
  proof (cases "N div M < g")
    case True
    then have b: "(N div M + 1) * M \<le> g * M" by (intro mult_le_mono1) simp
    have "N div M * M \<le> (N div M + 1) * M" by simp
    then have a: "N div M * M \<le> g * M" using b by (rule le_trans)
    show ?thesis using a b by (rule if_le_nat)
  next
    case False
    then have e: "N div M = g" using q by simp
    have "g * M + N mod M = N" using e by (metis div_mult_mod_eq)
    then have "N mod M = 0" using assms(2) by linarith
    then show ?thesis using e assms(1) by simp
  qed
qed

lemma round_multiple_near:
  fixes M :: nat
  assumes "g * M \<le> N" and "2 * (N - g * M) < M"
  shows "(if 2 * (N mod M) < M \<or> (2 * (N mod M) = M \<and> even (N div M))
          then N div M * M else (N div M + 1) * M) = g * M"
proof -
  obtain r where N: "N = g * M + r" and r: "2 * r < M"
    using assms by (metis le_add_diff_inverse)
  have "r < M" using r by simp
  then have d: "N div M = g" and m: "N mod M = r" using N by simp_all
  show ?thesis using d m r by simp
qed

lemma round_multiple_gt:
  fixes M :: nat
  assumes "0 < M" and "g * M \<le> N" and "M < 2 * (N - g * M)"
  shows "g * M < (if 2 * (N mod M) < M \<or> (2 * (N mod M) = M \<and> even (N div M))
          then N div M * M else (N div M + 1) * M)"
proof -
  have q: "g \<le> N div M" using assms(1,2)
    by (metis div_le_mono nonzero_mult_div_cancel_right less_numeral_extra(3))
  show ?thesis
  proof (cases "g < N div M")
    case True
    then have a: "g * M < N div M * M" using assms(1) by simp
    have "N div M * M \<le> (N div M + 1) * M" by simp
    then have b: "g * M < (N div M + 1) * M" using a by (rule less_le_trans [rotated])
    show ?thesis using a b by (rule if_gt_nat)
  next
    case False
    then have e: "N div M = g" using q by simp
    have "g * M + N mod M = N" using e by (metis div_mult_mod_eq)
    then have "N mod M = N - g * M" by linarith
    then have "M < 2 * (N mod M)" using assms(3) by simp
    then show ?thesis using e assms(1) by simp
  qed
qed


lemma round53_small: "n < 2 ^ 53 \<Longrightarrow> round53 n = n"
  by (simp add: round53_def bit_length_le_iff)

lemma round53_large:
  assumes "\<not> n < 2 ^ 53" and "M = 2 ^ (bit_length n - 53)"
  shows "round53 n =
           (if 2 * (n mod M) < M \<or> (2 * (n mod M) = M \<and> even (n div M))
            then n div M * M else (n div M + 1) * M)"
  using assms by (simp add: round53_def bit_length_le_iff Let_def)

lemma float_of_int_small: "n < 2 ^ 53 \<Longrightarrow> float_of_int n = Inr n"
proof -
  assume a: "n < 2 ^ 53"
  have "(2::nat) ^ 53 \<le> 2 ^ 1024" by (rule power_increasing) simp_all
  then have "n < 2 ^ 1024" using a by (rule less_le_trans [rotated])
  then show ?thesis using a by (simp add: float_of_int_def round53_small Let_def)
qed

lemma tenth_product_rounded:
  assumes "n < 9007199254740992"
  shows "c * 36028797018963968 < round53 (n * 3602879701896397) \<longleftrightarrow> 10 * c < n"
proof (cases "n * 3602879701896397 < (2::nat) ^ 53")
  case True
  then have r: "round53 (n * 3602879701896397) = n * 3602879701896397"
    by (rule round53_small)
  have "n \<le> 2" using True by simp
  then show ?thesis unfolding r by arith
next
  case False
  let ?N = "n * 3602879701896397"
  let ?G = "c * 36028797018963968"
  define s where "s = bit_length ?N - 53"
  define M :: nat where "M = 2 ^ s"
  have L: "53 < bit_length ?N" using False bit_length_le_iff [of ?N 53] by simp
  have "?N < 2 ^ 105" using assms by simp
  then have "bit_length ?N \<le> 105" using bit_length_le_iff by blast
  then have s52: "s \<le> 52" and s1: "1 \<le> s" using L by (simp_all add: s_def)
  have bl: "bit_length ?N = s + 53" using L by (simp add: s_def)
  have Mpos: "0 < M" by (simp add: M_def)
  have "M \<le> 2 ^ 52" unfolding M_def using s52 by (intro power_increasing) simp_all
  then have M52: "M \<le> 4503599627370496" by simp
  have "(2::nat) ^ 55 = 2 ^ (55 - s) * 2 ^ s"
    using s52 by (simp add: power_add [symmetric])
  then have G: "?G = (c * 2 ^ (55 - s)) * M" by (simp add: M_def)
  have "?N < 2 ^ (bit_length ?N)" using bit_length_le_iff [of ?N "bit_length ?N"] by simp
  then have Nlt: "?N < M * 9007199254740992" by (simp add: bl M_def power_add)
  have R: "round53 ?N =
             (if 2 * (?N mod M) < M \<or> (2 * (?N mod M) = M \<and> even (?N div M))
              then ?N div M * M else (?N div M + 1) * M)"
    using False by (intro round53_large) (simp_all add: M_def s_def)
  show ?thesis
  proof (cases "10 * c < n")
    case True
    then have "?G + 2251799813685248 < ?N" by simp
    then have a: "(c * 2 ^ (55 - s)) * M \<le> ?N" and b: "M < 2 * (?N - (c * 2 ^ (55 - s)) * M)"
      using M52 unfolding G [symmetric] by simp_all
    have "?G < round53 ?N"
      unfolding R G by (rule round_multiple_gt [OF Mpos a b])
    then show ?thesis using True by simp
  next
    case False
    then have up: "?N \<le> ?G + 2 * c" by simp
    have "round53 ?N \<le> ?G"
    proof (cases "?N \<le> ?G")
      case True
      then have "?N \<le> (c * 2 ^ (55 - s)) * M" unfolding G [symmetric] .
      then show ?thesis unfolding R G by (rule round_multiple_le [OF Mpos])
    next
      case False
      then have "?G < M * 9007199254740992" using Nlt by simp
      then have "4 * c < M" by simp
      then have a: "(c * 2 ^ (55 - s)) * M \<le> ?N" and b: "2 * (?N - (c * 2 ^ (55 - s)) * M) < M"
        using up False unfolding G [symmetric] by simp_all
      show ?thesis unfolding R G using round_multiple_near [OF a b] by simp
    qed
    then show ?thesis using False by simp
  qed
qed

lemma lt_tenth_exact:
  assumes "n < 2 ^ 53"
  shows "lt_tenth c n = Inr (10 * c < n)"
  using assms tenth_product_rounded [of n c]
  by (simp add: lt_tenth_def float_of_int_small)

section \<open>Verification\<close>

lemma size_reduced_exact:
  assumes "\<forall>n. original_size = Some n \<longrightarrow> n < 2 ^ 53"
  shows "size_reduced original_size c = Inr (\<exists>n. original_size = Some n \<and> 10 * c < n)"
proof (cases original_size)
  case None
  then show ?thesis by (simp add: size_reduced_def)
next
  case (Some n)
  then have "n < 2 ^ 53" using assms by simp
  then show ?thesis using Some by (simp add: size_reduced_def lt_tenth_exact)
qed

text \<open>
  C6, as the code has it. For an original size that is absent or below \<open>2 ^ 53\<close>,
  \<open>verify_eviction\<close> confirms exactly when the classification after the settle
  delay returns a status and one of these holds: (a) it is a placeholder; (b) it is
  not downloaded; (c) an original size is given and the current size is below a tenth
  of it; (d) none of the materialized attribute names is present; (e) an original
  size is given, is not zero, equals the current size, and one of the policy
  attributes is present.
\<close>

theorem verify_eviction_confirms_iff:
  assumes "\<forall>n. original_size = Some n \<longrightarrow> n < 2 ^ 53"
  shows "fst (fst (verify_eviction e file_path original_size w)) \<longleftrightarrow>
           (\<exists>st. get_icloud_file_status (home e) (sleep e 2 w file_path) file_path
                   = Inr (Some st) \<and>
              (is_placeholder st
               \<or> \<not> is_downloaded st
               \<or> (\<exists>n. original_size = Some n \<and> 10 * file_size st < n)
               \<or> (\<forall>a \<in> set materialized_attrs. a \<notin> set (attributes st))
               \<or> (\<exists>n. original_size = Some n \<and> n \<noteq> 0 \<and> file_size st = n
                      \<and> (\<exists>a \<in> set policy_attrs. a \<in> set (attributes st)))))"
proof -
  obtain r where r: "get_icloud_file_status (home e) (sleep e 2 w file_path) file_path = Inr r"
    using get_status_returns by blast
  note sr = size_reduced_exact [OF assms]
  show ?thesis
  proof (cases r)
    case None
    then show ?thesis using r by (simp add: verify_eviction_def verify_body_def Let_def)
  next
    case (Some st)
    then show ?thesis using r
      by (auto simp add: verify_eviction_def verify_body_def Let_def sr size_unchanged_def
            list_ex_iff split: option.splits)
  qed
qed

lemma lt_tenth_500: "lt_tenth 500 200000 = Inr True"
  by (simp add: lt_tenth_exact)

lemma verify_shrunk:
  "verify_eviction example_env drive_song (Some 200000) (world_with drive_song shrunk_file)
     = ((True, SizeReduced (Some 200000) 500), world_with drive_song shrunk_file, [Sleep 2, Classify])"
  by (simp add: verify_eviction_def verify_body_def shrunk_file_status size_reduced_def
        lt_tenth_500)

theorem verify_eviction_confirms_iff_witness:
  "fst (fst (verify_eviction example_env drive_song (Some 200000)
               (world_with drive_song shrunk_file)))
   \<and> (10::nat) * 500 < 200000 \<and> (200000::nat) < 2 ^ 53"
proof -
  have h: "\<forall>n. Some (200000::nat) = Some n \<longrightarrow> n < 2 ^ 53" by simp
  show ?thesis
    using verify_eviction_confirms_iff
            [where original_size = "Some 200000" and e = example_env
               and file_path = drive_song and w = "world_with drive_song shrunk_file", OF h]
    by (simp add: shrunk_file_status)
qed

text \<open>
  C6, as the claim states it, fails when the original size is zero: the empty file is
  classified as downloaded and not a placeholder, keeps a materialized attribute, has
  the original size and carries a policy attribute, so (e) of the claim holds, yet
  \<open>verify_eviction\<close> answers no, because \<open>original_size and ...\<close> is false for 0.
\<close>

theorem zero_original_size_counterexample:
  "verify_eviction example_env drive_song (Some 0) (world_with drive_song empty_policy_file)
     = ((False, StillDownloaded 0), world_with drive_song empty_policy_file, [Sleep 2, Classify])
   \<and> get_icloud_file_status home_dir empty_policy_file drive_song =
       Inr (Some \<lparr>is_icloud_file = True, is_downloaded = True, is_downloading = False,
                   is_placeholder = False, file_size = 0,
                   attributes = [''com.apple.file-provider.materialized'',
                                 ''com.apple.file-provider.download-policy'']\<rparr>)
   \<and> ''com.apple.file-provider.download-policy'' \<in> set policy_attrs"
  by (simp add: verify_eviction_def verify_body_def empty_policy_file_status size_reduced_def
        size_unchanged_def materialized_attrs_def policy_attrs_def)

section \<open>The orchestrator's loop\<close>

lemma verify_eviction_events [simp]:
  "snd (snd (verify_eviction e p orig w)) = [Sleep 2, Classify]"
  by (simp add: verify_eviction_def Let_def)

lemma actions_append [simp]: "actions (xs @ ys) = actions xs @ actions ys"
  by (simp add: actions_def)

lemma actions_simps [simp]:
  "actions [] = []"
  "actions (Print m # evs) = actions evs"
  "actions (Invoke n b # evs) = Invoke n b # actions evs"
  "actions (Policy # evs) = Policy # actions evs"
  "actions (Sleep k # evs) = Sleep k # actions evs"
  "actions (Classify # evs) = Classify # actions evs"
  by (simp_all add: actions_def)

lemma get_status_not_Inl [simp]: "get_icloud_file_status hm fs p \<noteq> Inl ex"
  using get_status_returns [of hm fs p] by auto

lemma strategy_loop_success:
  "strategy_loop (name # names) (Invoke name True # Policy # Sleep 2 # Classify # rest)
     = (rest = [Policy] \<or> strategy_loop names rest)"
  by simp

lemma strategy_loop_failure:
  "strategy_loop (name # names) (Invoke name False # rest) = strategy_loop names rest"
  by simp

lemma try_methods_shape:
  assumes "after_strategies rest"
  shows "strategy_loop (map fst ms)
           (actions (snd (snd (try_methods e p sz ms w)))
              @ (if fst (try_methods e p sz ms w) then [] else rest))"
proof (induction ms arbitrary: w)
  case Nil
  show ?case using assms by simp
next
  case (Cons m ms)
  obtain name f where m: "m = (name, f)" by (cases m)
  show ?case
  proof (cases "fst (f p w)")
    case False
    then show ?thesis
      using Cons.IH [of "snd (f p w)"]
      by (simp add: m Let_def strategy_loop_failure del: strategy_loop.simps)
  next
    case True
    let ?v = "verify_eviction e p (Some sz) (snd (prevent_auto_redownload e p (snd (f p w))))"
    show ?thesis
    proof (cases "fst (fst ?v)")
      case True
      then show ?thesis
        using \<open>fst (f p w)\<close>
        by (simp add: m Let_def strategy_loop_success del: strategy_loop.simps)
    next
      case False
      then show ?thesis
        using \<open>fst (f p w)\<close> Cons.IH [of "fst (snd ?v)"]
        by (simp add: m Let_def strategy_loop_success del: strategy_loop.simps)
    qed
  qed
qed

lemma check_eviction_after_delay_actions:
  "actions (snd (snd (check_eviction_after_delay e p sz d w))) = [Sleep d, Sleep 2, Classify]"
  by (simp add: check_eviction_after_delay_def Let_def)

lemma after_methods_shape:
  "after_strategies (actions (snd (snd (after_methods e p sz w))))"
  by (simp add: after_methods_def Let_def check_eviction_after_delay_actions after_strategies_def
           split: sum.splits option.splits)

text \<open>
  C8, as the code has it. Every run of \<open>remove_download_smart\<close> that reaches the
  strategies calls them in their fixed order. A strategy call that returned true is
  followed at once by the policy writes and the verification (settle sleep,
  classification), before the next strategy is called. A strategy call that returned
  false is followed by neither: the next action is the call of the next strategy or,
  after the last strategy only, the wait of the delayed check.
\<close>

theorem policy_and_verify_only_after_success:
  "orchestrated (actions (snd (snd (remove_download_smart e file_path w))))"
proof -
  let ?q = "abspath e file_path"
  have names: "map fst (methods e) = [''brctl'', ''AppleScript'', ''xattr'', ''evict'']"
    by (simp add: methods_def)
  obtain r where r: "get_icloud_file_status (home e) (w ?q) ?q = Inr r"
    using get_status_returns by blast
  show ?thesis
  proof (cases "path_exists w ?q \<and> (\<exists>ist. r = Some ist \<and> is_icloud_file ist \<and> is_downloaded ist)")
    case False
    then have "actions (snd (snd (remove_download_smart e file_path w))) = []
               \<or> actions (snd (snd (remove_download_smart e file_path w))) = [Classify]"
      using r by (cases r) (auto simp add: remove_download_smart_def Let_def)
    then show ?thesis by (auto simp add: orchestrated_def)
  next
    case True
    then obtain ist where ist: "r = Some ist" "is_icloud_file ist" "is_downloaded ist"
      and ex: "path_exists w ?q" by blast
    let ?l = "try_methods e ?q (file_size ist) (methods e) w"
    let ?a = "after_methods e ?q (file_size ist) (fst (snd ?l))"
    let ?rest = "actions (snd (snd ?l)) @ (if fst ?l then [] else actions (snd (snd ?a)))"
    have run: "actions (snd (snd (remove_download_smart e file_path w))) = Classify # ?rest"
      using r ist ex by (simp add: remove_download_smart_def Let_def)
    have "strategy_loop (map fst (methods e)) ?rest"
      by (rule try_methods_shape [OF after_methods_shape])
    then have "strategy_loop [''brctl'', ''AppleScript'', ''xattr'', ''evict''] ?rest"
      unfolding names .
    then show ?thesis unfolding run by (simp add: orchestrated_def)
  qed
qed

lemma example_run:
  "remove_download_smart example_env drive_song (world_with drive_song downloaded_file)
     = (Inr True, world_with drive_song shrunk_file,
        [Classify, Print (Evicting 200000),
         Print (Trying ''brctl''), Invoke ''brctl'' False, Print (MethodFailed ''brctl''),
         Print (Trying ''AppleScript''), Invoke ''AppleScript'' False,
         Print (MethodFailed ''AppleScript''),
         Print (Trying ''xattr''), Invoke ''xattr'' True, Print (ExecutedSuccessfully ''xattr''),
         Policy, Sleep 2, Classify, Print (Verification (SizeReduced (Some 200000) 500)),
         Print (SuccessfullyEvicted ''xattr''), Policy])"
proof -
  have e: "path_exists (world_with drive_song downloaded_file) drive_song"
    by (simp add: path_exists_def downloaded_file_def)
  show ?thesis
    by (simp add: remove_download_smart_def downloaded_file_status e methods_def Let_def
          verify_shrunk)
qed

theorem policy_and_verify_only_after_success_witness:
  "actions (snd (snd (remove_download_smart example_env drive_song
                        (world_with drive_song downloaded_file))))
     = [Classify, Invoke ''brctl'' False, Invoke ''AppleScript'' False, Invoke ''xattr'' True,
        Policy, Sleep 2, Classify, Policy]
   \<and> orchestrated
       [Classify, Invoke ''brctl'' False, Invoke ''AppleScript'' False, Invoke ''xattr'' True,
        Policy, Sleep 2, Classify, Policy]"
  using policy_and_verify_only_after_success
          [of example_env drive_song "world_with drive_song downloaded_file"]
  by (simp add: example_run)

text \<open>
  C8, as the claim states it, fails on a run whose first strategy returns false:
  \<open>brctl\<close> is called and the next action is the call of the next strategy, with no
  policy write and no verification in between.
\<close>

theorem failed_call_counterexample:
  "actions (snd (snd (remove_download_smart example_env drive_song
                        (world_with drive_song downloaded_file))))
     = [Classify, Invoke ''brctl'' False, Invoke ''AppleScript'' False, Invoke ''xattr'' True,
        Policy, Sleep 2, Classify, Policy]
   \<and> \<not> policy_and_verify_after_every_call
         (actions (snd (snd (remove_download_smart example_env drive_song
                               (world_with drive_song downloaded_file)))))"
  by (simp add: example_run)

text \<open>
  Runs the loop does not make: giving up after the first failed call, ending right
  after a failed call, and calling the strategies out of order.
\<close>

lemma orchestrated_rejects:
  "\<not> orchestrated [Classify, Invoke ''brctl'' False, Sleep 5, Sleep 2, Classify]"
  "\<not> orchestrated [Classify, Invoke ''brctl'' False]"
  "\<not> orchestrated [Classify, Invoke ''AppleScript'' False, Invoke ''brctl'' False,
                     Invoke ''xattr'' False, Invoke ''evict'' False, Sleep 5, Sleep 2, Classify]"
  by (simp_all add: orchestrated_def)

section \<open>The test for the cloud drive's root\<close>

lemma lt_tenth_500_2000: "lt_tenth 500 2000 = Inr False"
  by (simp add: lt_tenth_exact)

lemma verify_shrunk_backup:
  "verify_eviction example_env backup_song (Some 2000) (world_with backup_song shrunk_file)
     = ((False, StillDownloaded 500), world_with backup_song shrunk_file, [Sleep 2, Classify])"
  by (simp add: verify_eviction_def verify_body_def shrunk_file_status_backup size_reduced_def
        size_unchanged_def lt_tenth_500_2000 materialized_attrs_def)

lemma backup_run:
  "remove_download_smart example_env backup_song (world_with backup_song backup_file)
     = (Inr False, world_with backup_song shrunk_file,
        [Classify, Print (Evicting 2000),
         Print (Trying ''brctl''), Invoke ''brctl'' False, Print (MethodFailed ''brctl''),
         Print (Trying ''AppleScript''), Invoke ''AppleScript'' False,
         Print (MethodFailed ''AppleScript''),
         Print (Trying ''xattr''), Invoke ''xattr'' True, Print (ExecutedSuccessfully ''xattr''),
         Policy, Sleep 2, Classify, Print (Verification (StillDownloaded 500)),
         Print (Inconclusive ''xattr''),
         Print (Trying ''evict''), Invoke ''evict'' False, Print (MethodFailed ''evict''),
         Print AttemptingDelayedVerification, Print (Waiting 5), Sleep 5, Sleep 2, Classify,
         Print (DelayedInconclusive (StillDownloaded 500)),
         Print FinalStatusCheck, Classify,
         Print (FinalStatus
                  \<lparr>is_icloud_file = True, is_downloaded = True, is_downloading = False,
                     is_placeholder = False, file_size = 500,
                     attributes = [''com.apple.file-provider.materialized'']\<rparr>),
         Print SettingPoliciesAsFinalMeasure, Policy, Print CouldNotConfirm])"
proof -
  have e: "path_exists (world_with backup_song backup_file) backup_song"
    by (simp add: path_exists_def backup_file_def)
  show ?thesis
    by (simp add: remove_download_smart_def backup_file_status e methods_def Let_def
          verify_shrunk_backup after_methods_def check_eviction_after_delay_def
          shrunk_file_status_backup)
qed

text \<open>
  C1. The claim is that a path with no attribute in a cloud provider's namespace that
  does not lie under the cloud drive's root is classified with all three flags false
  and is never handed to an eviction strategy. The code tests
  \<open>file_path.startswith(icloud_drive_path)\<close> (line 310) with no path separator after the
  root. The local file \<open>song.mp3\<close> in the directory \<open>com~apple~CloudDocsBackup\<close>
  beside the root has no attributes and does not lie under the root, that is, its
  path does not begin with the root followed by a slash; it is classified as a
  downloaded cloud file all the same, and \<open>remove_download_smart\<close> runs the
  strategies and the policy writes on it and leaves it changed.
\<close>

theorem sibling_directory_file_is_evicted:
  "f_listxattr backup_file = Inr []
   \<and> startswith backup_song (icloud_drive_path home_dir @ ''/'') = False
   \<and> get_icloud_file_status home_dir backup_file backup_song =
       Inr (Some \<lparr>is_icloud_file = True, is_downloaded = True, is_downloading = False,
                   is_placeholder = False, file_size = 2000, attributes = []\<rparr>)
   \<and> fst (remove_download_smart example_env backup_song (world_with backup_song backup_file))
       = Inr False
   \<and> fst (snd (remove_download_smart example_env backup_song
                  (world_with backup_song backup_file)))
       = world_with backup_song shrunk_file
   \<and> actions (snd (snd (remove_download_smart example_env backup_song
                           (world_with backup_song backup_file))))
       = [Classify, Invoke ''brctl'' False, Invoke ''AppleScript'' False, Invoke ''xattr'' True,
          Policy, Sleep 2, Classify, Invoke ''evict'' False,
          Sleep 5, Sleep 2, Classify, Classify, Policy]"
  by (simp add: backup_run backup_file_status)
     (simp add: backup_file_def backup_song_def drive_eval)

section \<open>The sidecar check\<close>

lemma no_slash_all: "CHR ''/'' \<notin> set b \<Longrightarrow> x \<in> set (rev b) \<Longrightarrow> x \<noteq> CHR ''/''"
  by auto

lemma basename_split:
  assumes "CHR ''/'' \<notin> set b"
  shows "basename (d @ ''/'' @ b) = b"
proof -
  have "takeWhile (\<lambda>c. c \<noteq> CHR ''/'') (rev b @ CHR ''/'' # rev d)
          = rev b @ takeWhile (\<lambda>c. c \<noteq> CHR ''/'') (CHR ''/'' # rev d)"
    by (rule takeWhile_append2) (rule no_slash_all [OF assms])
  then show ?thesis by (simp add: basename_def)
qed

lemma basename_no_slash:
  assumes "CHR ''/'' \<notin> set p"
  shows "basename p = p"
proof -
  have "\<forall>x \<in> set (rev p). x \<noteq> CHR ''/''" using assms by auto
  then have "takeWhile (\<lambda>c. c \<noteq> CHR ''/'') (rev p) = rev p"
    by (simp only: takeWhile_eq_all_conv)
  then show ?thesis by (simp only: basename_def rev_rev_ident)
qed

lemma dirname_no_slash:
  assumes "CHR ''/'' \<notin> set p"
  shows "dirname p = []"
proof -
  have "\<forall>x \<in> set (rev p). x \<noteq> CHR ''/''" using assms by auto
  then have "dropWhile (\<lambda>c. c \<noteq> CHR ''/'') (rev p) = []"
    by (simp only: dropWhile_eq_Nil_conv)
  then have "rev (dropWhile (\<lambda>c. c \<noteq> CHR ''/'') (rev p)) = []" by (simp only: rev.simps)
  then show ?thesis by (simp only: dirname_def Let_def) simp
qed

lemma dirname_head:
  assumes "CHR ''/'' \<notin> set b"
  shows "rev (dropWhile (\<lambda>c. c \<noteq> CHR ''/'') (rev (d @ ''/'' @ b))) = d @ ''/''"
proof -
  have "dropWhile (\<lambda>c. c \<noteq> CHR ''/'') (rev b @ CHR ''/'' # rev d)
          = dropWhile (\<lambda>c. c \<noteq> CHR ''/'') (CHR ''/'' # rev d)"
    by (rule dropWhile_append2) (rule no_slash_all [OF assms])
  then show ?thesis by simp
qed

lemma dirname_split:
  assumes "CHR ''/'' \<notin> set b" and "d \<noteq> []" and "last d \<noteq> CHR ''/''"
  shows "dirname (d @ ''/'' @ b) = d"
proof -
  have "last d \<in> set (d @ ''/'')" using assms(2) by simp
  then have "d @ ''/'' \<noteq> replicate (length (d @ ''/'')) (CHR ''/'')"
    using assms(3) by (metis in_set_replicate)
  moreover have "rstrip_slash (d @ ''/'') = d"
    using assms(2,3) by (cases d rule: rev_cases) (simp_all add: rstrip_slash_def)
  ultimately show ?thesis
    unfolding dirname_def dirname_head [OF assms(1)] by (simp add: Let_def)
qed

lemma dirname_root: "CHR ''/'' \<notin> set b \<Longrightarrow> dirname (''/'' @ b) = ''/''"
  using dirname_head [of b "[]"] by (simp add: dirname_def Let_def)

text \<open>
  C10. \<open>is_icloud_file_evicted\<close> never raises. For a path that does not exist it
  is true exactly when \<open>.<basename>.icloud\<close> exists in the path's directory (for a
  path \<open>d/b\<close> that is \<open>d/.b.icloud\<close>, for a bare name \<open>b\<close> it is \<open>.b.icloud\<close>);
  for a path that exists it is true exactly when the size is 0.
\<close>

theorem sidecar_or_empty:
  "is_icloud_file_evicted w p =
     Inr (if path_exists w p then f_stat (w p) = Inr 0
          else path_exists w (path_join (dirname p) (''.'' @ basename p @ ''.icloud'')))
   \<and> (\<forall>d b. p = d @ ''/'' @ b \<and> CHR ''/'' \<notin> set b \<and> (d = [] \<or> last d \<noteq> CHR ''/'') \<longrightarrow>
         path_join (dirname p) (''.'' @ basename p @ ''.icloud'') = d @ ''/.'' @ b @ ''.icloud'')
   \<and> (CHR ''/'' \<notin> set p \<longrightarrow>
         path_join (dirname p) (''.'' @ basename p @ ''.icloud'') = ''.'' @ p @ ''.icloud'')"
proof (intro conjI allI impI)
  show "is_icloud_file_evicted w p =
     Inr (if path_exists w p then f_stat (w p) = Inr 0
          else path_exists w (path_join (dirname p) (''.'' @ basename p @ ''.icloud'')))"
    by (auto simp add: is_icloud_file_evicted_def path_exists_def Let_def split: sum.splits)
next
  fix d b
  assume a: "p = d @ ''/'' @ b \<and> CHR ''/'' \<notin> set b \<and> (d = [] \<or> last d \<noteq> CHR ''/'')"
  show "path_join (dirname p) (''.'' @ basename p @ ''.icloud'') = d @ ''/.'' @ b @ ''.icloud''"
  proof (cases "d = []")
    case True
    then show ?thesis using a dirname_root [of b] basename_split [of b "[]"]
      by (simp add: path_join_def)
  next
    case False
    then show ?thesis using a dirname_split [of b d] basename_split [of b d]
      by (simp add: path_join_def)
  qed
next
  assume "CHR ''/'' \<notin> set p"
  then show "path_join (dirname p) (''.'' @ basename p @ ''.icloud'') = ''.'' @ p @ ''.icloud''"
    by (simp add: dirname_no_slash basename_no_slash path_join_def)
qed

theorem sidecar_or_empty_witness:
  "is_icloud_file_evicted (world_with sidecar_song documents_file) drive_song = Inr True
   \<and> \<not> path_exists (world_with sidecar_song documents_file) drive_song
   \<and> is_icloud_file_evicted (world_with drive_song downloaded_file) drive_song = Inr False"
proof -
  let ?d = "''/Users/dennisporter/Library/Mobile Documents/com~apple~CloudDocs''"
  have p: "drive_song = ?d @ ''/'' @ ''song.mp3''" by (simp add: drive_song_def)
  have s: "path_join (dirname drive_song) (''.'' @ basename drive_song @ ''.icloud'') = sidecar_song"
    using sidecar_or_empty [of "world_with sidecar_song documents_file" drive_song,
            THEN conjunct2, THEN conjunct1, rule_format, of ?d "''song.mp3''"] p
    by (simp add: sidecar_song_def)
  have n: "\<not> path_exists (world_with sidecar_song documents_file) drive_song"
    by (simp add: path_exists_def world_with_def drive_song_def sidecar_song_def missing_file_def)
  have y: "path_exists (world_with sidecar_song documents_file) sidecar_song"
    by (simp add: path_exists_def documents_file_def)
  have z: "path_exists (world_with drive_song downloaded_file) drive_song"
     "f_stat (world_with drive_song downloaded_file drive_song) = Inr 200000"
    by (simp_all add: path_exists_def downloaded_file_def)
  show ?thesis
    using sidecar_or_empty [of "world_with sidecar_song documents_file" drive_song]
          sidecar_or_empty [of "world_with drive_song downloaded_file" drive_song] s n y z
    by simp
qed

end
